theory Spec2Isabelle
  imports Main "HOL-Library.Sublist"
begin

section \<open>JavaScript values read and written by the auth cache\<close>

text \<open>
  The development models the auth-state cache \<open>AuthCache\<close> (the definition with the
  account flag, the later of the two in its file) and the browser detection
  \<open>BrowserDetect\<close> of \<open>static/js/browser-detect.js\<close>. A function that can throw returns a
  value of \<open>exn + 'a\<close>; one that changes the storage or the window returns the new one.

  The values of the program are JSON values: what \<open>JSON.parse\<close> returns and what the
  cache is given to store. Numbers are integers (millisecond timestamps); an object is
  the list of its properties, each name once (a lookup takes the first); a string is
  the list of its UTF-8 bytes. A property read that finds nothing yields \<open>undefined\<close>,
  modelled as \<open>None\<close> of \<open>json option\<close>; \<open>JNull\<close> is JavaScript's \<open>null\<close>.
\<close>

datatype json =
    JNull
  | JBool bool
  | JNum int
  | JStr string
  | JArr "json list"
  | JObj "(string \<times> json) list"

datatype exn = TypeError | SyntaxError | SecurityError | QuotaExceededError

text \<open>Truthiness (\<open>NaN\<close> is not a value of the model).\<close>

fun truthy :: "json \<Rightarrow> bool" where
  "truthy JNull = False"
| "truthy (JBool b) = b"
| "truthy (JNum n) = (n \<noteq> 0)"
| "truthy (JStr s) = (s \<noteq> [])"
| "truthy (JArr xs) = True"
| "truthy (JObj kvs) = True"

fun truthy_opt :: "json option \<Rightarrow> bool" where
  "truthy_opt None = False"
| "truthy_opt (Some v) = truthy v"

text \<open>\<open>a || b\<close>: the left operand when it is truthy, else the right one.\<close>

definition js_or :: "json option \<Rightarrow> json option \<Rightarrow> json option" where
  "js_or a b = (if truthy_opt a then a else b)"

text \<open>\<open>a || d\<close> where the right operand \<open>d\<close> is a literal, so the result is defined.\<close>

definition js_or_lit :: "json option \<Rightarrow> json \<Rightarrow> json" where
  "js_or_lit a d = (case a of None \<Rightarrow> d | Some v \<Rightarrow> if truthy v then v else d)"

text \<open>
  \<open>v.name\<close>: reading a property of \<open>null\<close> throws a TypeError; an object yields the
  value stored under the name or \<open>undefined\<close>; a boolean, number, string or array has
  none of the property names this program reads, so the read yields \<open>undefined\<close>.
\<close>

fun get_prop :: "json \<Rightarrow> string \<Rightarrow> exn + json option" where
  "get_prop JNull name = Inl TypeError"
| "get_prop (JObj kvs) name = Inr (map_of kvs name)"
| "get_prop v name = Inr None"

text \<open>
  ToString, as a template literal and a subtraction apply it. An integer is printed in
  decimal (the notation JavaScript uses below \<open>10^21\<close>). An array is the texts of its
  elements joined by commas, \<open>null\<close> giving the empty text. An object parsed from JSON
  has no callable property of its own, so when it has an own property \<open>toString\<close> the
  conversion finds no method that yields a primitive and throws a TypeError; otherwise
  \<open>Object.prototype.toString\<close> answers.
\<close>

definition digit_char :: "nat \<Rightarrow> char" where
  "digit_char n = ''0123456789'' ! (n mod 10)"

fun digits :: "nat \<Rightarrow> string" where
  "digits n =
     (if n < 10 then [digit_char n]
      else digits (n div 10) @ [digit_char n])"

fun to_string :: "json \<Rightarrow> exn + string"
  and join_strings :: "json list \<Rightarrow> exn + string" where
  "to_string JNull = Inr ''null''"
| "to_string (JBool b) = Inr (if b then ''true'' else ''false'')"
| "to_string (JNum n) = Inr (if n < 0 then ''-'' @ digits (nat (- n)) else digits (nat n))"
| "to_string (JStr s) = Inr s"
| "to_string (JArr xs) = join_strings xs"
| "to_string (JObj kvs) =
     (case map_of kvs ''toString'' of
        None \<Rightarrow> Inr ''[object Object]''
      | Some m \<Rightarrow> Inl TypeError)"
| "join_strings [] = Inr ''''"
| "join_strings (x # xs) =
     (case (if x = JNull then Inr '''' else to_string x) of
        Inl e \<Rightarrow> Inl e
      | Inr s \<Rightarrow>
          if xs = [] then Inr s
          else (case join_strings xs of
                  Inl e \<Rightarrow> Inl e
                | Inr r \<Rightarrow> Inr (s @ '','' @ r)))"

text \<open>
  ToNumber: \<open>None\<close> is \<open>NaN\<close>. The conversion of a string to a number is a parameter
  \<open>num\<close> of the model (JavaScript's StringToNumber); an array or an object is converted
  to its text first.
\<close>

fun to_number :: "(string \<Rightarrow> int option) \<Rightarrow> json option \<Rightarrow> exn + int option" where
  "to_number num None = Inr None"
| "to_number num (Some JNull) = Inr (Some 0)"
| "to_number num (Some (JBool b)) = Inr (Some (if b then 1 else 0))"
| "to_number num (Some (JNum n)) = Inr (Some n)"
| "to_number num (Some (JStr s)) = Inr (num s)"
| "to_number num (Some v) =
     (case to_string v of
        Inl e \<Rightarrow> Inl e
      | Inr s \<Rightarrow> Inr (num s))"

section \<open>Browser storage\<close>

text \<open>
  A stored text is either the empty string, a non-empty text that \<open>JSON.parse\<close>
  rejects, or the text \<open>JSON.stringify\<close> gives for a JSON value; so the text
  \<open>'true'\<close> is \<open>Doc (JBool True)\<close>.
\<close>

datatype stored = EmptyText | BadText | Doc json

text \<open>
  \<open>localStorage\<close>: its entries, whether every access throws (storage disabled), and
  whether \<open>setItem\<close> throws (quota exceeded); with the console's warnings.
\<close>

record browser =
  items :: "string \<Rightarrow> stored option"
  storage_denied :: bool
  quota_exceeded :: bool
  console :: "string list"

definition getItem :: "browser \<Rightarrow> string \<Rightarrow> exn + stored option" where
  "getItem b k = (if storage_denied b then Inl SecurityError else Inr (items b k))"

definition setItem :: "browser \<Rightarrow> string \<Rightarrow> stored \<Rightarrow> (exn + unit) \<times> browser" where
  "setItem b k v =
     (if storage_denied b then (Inl SecurityError, b)
      else if quota_exceeded b then (Inl QuotaExceededError, b)
      else (Inr (), b\<lparr>items := (items b)(k \<mapsto> v)\<rparr>))"

definition removeItem :: "browser \<Rightarrow> string \<Rightarrow> (exn + unit) \<times> browser" where
  "removeItem b k =
     (if storage_denied b then (Inl SecurityError, b)
      else (Inr (), b\<lparr>items := (items b)(k := None)\<rparr>))"

definition JSON_parse :: "stored \<Rightarrow> exn + json" where
  "JSON_parse t = (case t of Doc v \<Rightarrow> Inr v | _ \<Rightarrow> Inl SyntaxError)"

definition JSON_stringify :: "json \<Rightarrow> stored" where
  "JSON_stringify v = Doc v"

definition console_warn :: "browser \<Rightarrow> string \<Rightarrow> browser" where
  "console_warn b msg = b\<lparr>console := console b @ [msg]\<rparr>"

section \<open>AuthCache\<close>

definition STORAGE_KEY :: string where
  "STORAGE_KEY = ''guruji_auth_cache''"

definition HAS_ACCOUNT_KEY :: string where
  "HAS_ACCOUNT_KEY = ''guruji_has_account''"

definition CACHE_TTL :: int where
  "CACHE_TTL = 24 * 60 * 60 * 1000"

text \<open>\<open>clear()\<close>: removes the cache entry; an exception is caught and ignored.\<close>

definition clear :: "browser \<Rightarrow> (exn + unit) \<times> browser" where
  "clear b =
     (case removeItem b STORAGE_KEY of
        (Inl e, b') \<Rightarrow> (Inr (), b')
      | (Inr u, b') \<Rightarrow> (Inr u, b'))"

text \<open>
  \<open>Date.now() - data.lastSync > CACHE_TTL\<close>: converting \<open>lastSync\<close> to a number may
  throw; a comparison with \<open>NaN\<close> is false.
\<close>

definition expired :: "(string \<Rightarrow> int option) \<Rightarrow> int \<Rightarrow> json option \<Rightarrow> exn + bool" where
  "expired num now lastSync =
     (case to_number num lastSync of
        Inl e \<Rightarrow> Inl e
      | Inr None \<Rightarrow> Inr False
      | Inr (Some t) \<Rightarrow> Inr (now - t > CACHE_TTL))"

text \<open>
  The \<open>try\<close> block of \<open>get()\<close>, with \<open>now\<close> the value of \<open>Date.now()\<close>. The value
  returned is \<open>JNull\<close> for \<open>null\<close>.
\<close>

definition get_try :: "(string \<Rightarrow> int option) \<Rightarrow> int \<Rightarrow> browser \<Rightarrow> (exn + json) \<times> browser" where
  "get_try num now b =
     (case getItem b STORAGE_KEY of
        Inl e \<Rightarrow> (Inl e, b)
      | Inr None \<Rightarrow> (Inr JNull, b)
      | Inr (Some EmptyText) \<Rightarrow> (Inr JNull, b)
      | Inr (Some cached) \<Rightarrow>
          (case JSON_parse cached of
             Inl e \<Rightarrow> (Inl e, b)
           | Inr data \<Rightarrow>
               (case get_prop data ''lastSync'' of
                  Inl e \<Rightarrow> (Inl e, b)
                | Inr lastSync \<Rightarrow>
                    (case expired num now lastSync of
                       Inl e \<Rightarrow> (Inl e, b)
                     | Inr True \<Rightarrow>
                         (case clear b of
                            (Inl e, b') \<Rightarrow> (Inl e, b')
                          | (Inr u, b') \<Rightarrow> (Inr JNull, b'))
                     | Inr False \<Rightarrow> (Inr data, b)))))"

definition get :: "(string \<Rightarrow> int option) \<Rightarrow> int \<Rightarrow> browser \<Rightarrow> (exn + json) \<times> browser" where
  "get num now b =
     (case get_try num now b of
        (Inl e, b') \<Rightarrow>
          (case clear b' of
             (Inl e', b'') \<Rightarrow> (Inl e', b'')
           | (Inr u, b'') \<Rightarrow> (Inr JNull, b''))
      | (Inr v, b') \<Rightarrow> (Inr v, b'))"

text \<open>
  \<open>set(state)\<close>: the object literal reads four properties of \<open>state\<close> (a TypeError when
  \<open>state\<close> is \<open>null\<close>), each replaced by its default when falsy, and stamps
  \<open>lastSync\<close>; a failure is caught and logged.
\<close>

definition set_data :: "int \<Rightarrow> json \<Rightarrow> exn + json" where
  "set_data now state =
     (case get_prop state ''isLoggedIn'' of Inl e \<Rightarrow> Inl e | Inr li \<Rightarrow>
     (case get_prop state ''userId'' of Inl e \<Rightarrow> Inl e | Inr uid \<Rightarrow>
     (case get_prop state ''userName'' of Inl e \<Rightarrow> Inl e | Inr un \<Rightarrow>
     (case get_prop state ''userImage'' of Inl e \<Rightarrow> Inl e | Inr ui \<Rightarrow>
        Inr (JObj [(''isLoggedIn'', js_or_lit li (JBool False)),
                  (''userId'', js_or_lit uid JNull),
                  (''userName'', js_or_lit un (JStr '''')),
                  (''userImage'', js_or_lit ui JNull),
                  (''lastSync'', JNum now)])))))"

definition set_try :: "int \<Rightarrow> json \<Rightarrow> browser \<Rightarrow> (exn + unit) \<times> browser" where
  "set_try now state b =
     (case set_data now state of
        Inl e \<Rightarrow> (Inl e, b)
      | Inr data \<Rightarrow> setItem b STORAGE_KEY (JSON_stringify data))"

definition set_cache :: "int \<Rightarrow> json \<Rightarrow> browser \<Rightarrow> (exn + unit) \<times> browser" where
  "set_cache now state b =
     (case set_try now state b of
        (Inl e, b') \<Rightarrow> (Inr (), console_warn b' ''AuthCache: Unable to save state'')
      | (Inr u, b') \<Rightarrow> (Inr u, b'))"

definition markHasAccount :: "browser \<Rightarrow> (exn + unit) \<times> browser" where
  "markHasAccount b =
     (case setItem b HAS_ACCOUNT_KEY (Doc (JBool True)) of
        (Inl e, b') \<Rightarrow> (Inr (), console_warn b' ''AuthCache: Unable to save account status'')
      | (Inr u, b') \<Rightarrow> (Inr u, b'))"

definition hasAccount :: "browser \<Rightarrow> exn + bool" where
  "hasAccount b =
     (case getItem b HAS_ACCOUNT_KEY of
        Inl e \<Rightarrow> Inr False
      | Inr v \<Rightarrow> Inr (v = Some (Doc (JBool True))))"

text \<open>
  \<open>syncWithClerk(clerkUser)\<close>: the argument is the identity object, or \<open>null\<close>.
  \<open>clerk_state\<close> is the object literal passed to \<open>set\<close>; a property whose value
  is \<open>undefined\<close> (\<open>clerkUser.id\<close> missing) reads back as \<open>undefined\<close>, as a
  missing one does.
\<close>

definition own_property :: "string \<Rightarrow> json option \<Rightarrow> (string \<times> json) list" where
  "own_property name v = (case v of None \<Rightarrow> [] | Some p \<Rightarrow> [(name, p)])"

definition clerk_state :: "json \<Rightarrow> exn + json" where
  "clerk_state clerkUser =
     (case get_prop clerkUser ''id'' of Inl e \<Rightarrow> Inl e | Inr uid \<Rightarrow>
     (case get_prop clerkUser ''fullName'' of Inl e \<Rightarrow> Inl e | Inr full \<Rightarrow>
     (case get_prop clerkUser ''firstName'' of Inl e \<Rightarrow> Inl e | Inr first \<Rightarrow>
     (case get_prop clerkUser ''imageUrl'' of Inl e \<Rightarrow> Inl e | Inr img \<Rightarrow>
        Inr (JObj ([(''isLoggedIn'', JBool True)] @
                  own_property ''userId'' uid @
                  [(''userName'', js_or_lit (js_or full first) (JStr ''User'')),
                   (''userImage'', js_or_lit img JNull)]))))))"

definition syncWithClerk :: "int \<Rightarrow> json \<Rightarrow> browser \<Rightarrow> (exn + unit) \<times> browser" where
  "syncWithClerk now clerkUser b =
     (if truthy clerkUser then
        (case markHasAccount b of
           (Inl e, b') \<Rightarrow> (Inl e, b')
         | (Inr u, b') \<Rightarrow>
             (case clerk_state clerkUser of
                Inl e \<Rightarrow> (Inl e, b')
              | Inr state \<Rightarrow> set_cache now state b'))
      else clear b)"

section \<open>Optimistic rendering\<close>

definition nl :: string where
  "nl = [CHR 0x0A]"

text \<open>The three template literals of \<open>renderOptimisticUI\<close>, line by line.\<close>

definition avatar_img :: "string \<Rightarrow> string" where
  \<open>avatar_img src =
     ''<img src="'' @ src @
     ''" alt="" style="width: 32px; height: 32px; border-radius: 50%; object-fit: cover;">''\<close>

definition avatar_icon :: string where
  \<open>avatar_icon = ''<i class="fas fa-user" style="color: var(--text-secondary, #888);"></i>''\<close>

definition logged_in_html :: "string \<Rightarrow> string" where
  \<open>logged_in_html glyph =
     nl @ ''                <a href="/dashboard" class="nav-link">Dashboard</a>'' @
     nl @ ''                <div class="auth-loading" style="display: inline-flex; align-items: center; gap: 0.5rem; padding: 0.5rem; border-radius: 50%; background: var(--bg-tertiary, #1a1a2e); min-width: 32px; min-height: 32px; justify-content: center;">'' @
     nl @ ''                    '' @ glyph @
     nl @ ''                </div>'' @
     nl @ ''            ''\<close>

definition loading_button_html :: "string \<Rightarrow> string" where
  \<open>loading_button_html buttonText =
     nl @ ''        <button class="btn btn-primary" id="optimistic-signin" style="opacity: 0.7;">'' @
     nl @ ''            <i class="fas fa-spinner fa-spin"></i> '' @ buttonText @
     nl @ ''        </button>'' @
     nl @ ''    ''\<close>

definition action_button_html :: "string \<Rightarrow> string \<Rightarrow> string" where
  \<open>action_button_html buttonIcon buttonText =
     nl @ ''        <button class="btn btn-primary" id="optimistic-signin">'' @
     nl @ ''            <i class="fas '' @ buttonIcon @ ''"></i> '' @ buttonText @
     nl @ ''        </button>'' @
     nl @ ''    ''\<close>

text \<open>
  The container element: its markup, and the click handler bound to the button
  \<open>#optimistic-signin\<close> inside it, if any. Assigning \<open>innerHTML\<close> replaces the
  children, so a handler bound to an earlier button is gone. The only handler this
  program binds is the closure of \<open>renderOptimisticUI\<close>, \<open>OptimisticClick\<close>.
\<close>

datatype handler = OptimisticClick

record container =
  innerHTML :: string
  button_onclick :: "handler option"

definition set_innerHTML :: "container \<Rightarrow> string \<Rightarrow> container" where
  "set_innerHTML c html = c\<lparr>innerHTML := html, button_onclick := None\<rparr>"

definition button_text :: "bool \<Rightarrow> string" where
  "button_text has = (if has then ''Sign In'' else ''Sign Up'')"

definition button_icon :: "bool \<Rightarrow> string" where
  "button_icon has = (if has then ''fa-sign-in-alt'' else ''fa-user-plus'')"

text \<open>\<open>cached && cached.isLoggedIn\<close>, as the condition of the first branch.\<close>

definition cached_logged_in :: "json \<Rightarrow> exn + bool" where
  "cached_logged_in cached =
     (if truthy cached
      then (case get_prop cached ''isLoggedIn'' of
              Inl e \<Rightarrow> Inl e
            | Inr v \<Rightarrow> Inr (truthy_opt v))
      else Inr False)"

text \<open>
  The glyph of the first branch: the image when \<open>cached.userImage\<close> is truthy, its
  text interpolated into the template (which may throw), else the icon.
\<close>

definition avatar_glyph :: "json \<Rightarrow> exn + string" where
  "avatar_glyph cached =
     (case get_prop cached ''userImage'' of
        Inl e \<Rightarrow> Inl e
      | Inr None \<Rightarrow> Inr avatar_icon
      | Inr (Some img) \<Rightarrow>
          if truthy img
          then (case to_string img of
                  Inl e \<Rightarrow> Inl e
                | Inr src \<Rightarrow> Inr (avatar_img src))
          else Inr avatar_icon)"

text \<open>
  \<open>renderOptimisticUI(container)\<close>; \<open>None\<close> is an absent container. The button is in
  the markup just assigned, so \<open>querySelector\<close> finds it and the handler is bound.
  \<open>hasAccount()\<close> is called for the text and again for the icon.
\<close>

definition renderOptimisticUI ::
  "(string \<Rightarrow> int option) \<Rightarrow> int \<Rightarrow> container option \<Rightarrow> browser
     \<Rightarrow> (exn + bool) \<times> container option \<times> browser" where
  "renderOptimisticUI num now container b =
     (case container of
        None \<Rightarrow> (Inr False, None, b)
      | Some c \<Rightarrow>
          (case get num now b of
             (Inl e, b') \<Rightarrow> (Inl e, Some c, b')
           | (Inr cached, b') \<Rightarrow>
               (case cached_logged_in cached of
                  Inl e \<Rightarrow> (Inl e, Some c, b')
                | Inr True \<Rightarrow>
                    (case avatar_glyph cached of
                       Inl e \<Rightarrow> (Inl e, Some c, b')
                     | Inr glyph \<Rightarrow>
                         (Inr True, Some (set_innerHTML c (logged_in_html glyph)), b'))
                | Inr False \<Rightarrow>
                    if cached = JNull
                    then (case hasAccount b' of
                            Inl e \<Rightarrow> (Inl e, Some c, b')
                          | Inr has1 \<Rightarrow>
                              (case hasAccount b' of
                                 Inl e \<Rightarrow> (Inl e, Some c, b')
                               | Inr has2 \<Rightarrow>
                                   (Inr True,
                                    Some (set_innerHTML c (loading_button_html (button_text has1))),
                                    b')))
                    else (case hasAccount b' of
                            Inl e \<Rightarrow> (Inl e, Some c, b')
                          | Inr has1 \<Rightarrow>
                              (case hasAccount b' of
                                 Inl e \<Rightarrow> (Inl e, Some c, b')
                               | Inr has2 \<Rightarrow>
                                   (Inr True,
                                    Some ((set_innerHTML c
                                             (action_button_html (button_icon has2) (button_text has1)))
                                          \<lparr>button_onclick := Some OptimisticClick\<rparr>),
                                    b'))))))"

text \<open>
  The closure bound to the button: with the SDK present it opens sign-in or sign-up
  (a TypeError if that entry point is missing); without it the button shows
  \<open>Loading...\<close> and is disabled.
\<close>

record clerk_sdk =
  has_openSignIn :: bool
  has_openSignUp :: bool

datatype sdk_call = OpenSignIn | OpenSignUp

datatype click_effect = Called sdk_call | Latched string

definition optimistic_click :: "clerk_sdk option \<Rightarrow> browser \<Rightarrow> exn + click_effect" where
  \<open>optimistic_click clerk b =
     (case clerk of
        Some sdk \<Rightarrow>
          (case hasAccount b of
             Inl e \<Rightarrow> Inl e
           | Inr True \<Rightarrow> if has_openSignIn sdk then Inr (Called OpenSignIn) else Inl TypeError
           | Inr False \<Rightarrow> if has_openSignUp sdk then Inr (Called OpenSignUp) else Inl TypeError)
      | None \<Rightarrow> Inr (Latched ''<i class="fas fa-spinner fa-spin"></i> Loading...''))\<close>

text \<open>The operations of the cache, each with the clock value it reads.\<close>

datatype cache_op =
    OpGet int
  | OpSet int json
  | OpClear
  | OpSync int json
  | OpMarkHasAccount
  | OpRender int "container option"

definition apply_op :: "(string \<Rightarrow> int option) \<Rightarrow> cache_op \<Rightarrow> browser \<Rightarrow> browser" where
  "apply_op num op b =
     (case op of
        OpGet now \<Rightarrow> snd (get num now b)
      | OpSet now state \<Rightarrow> snd (set_cache now state b)
      | OpClear \<Rightarrow> snd (clear b)
      | OpSync now clerkUser \<Rightarrow> snd (syncWithClerk now clerkUser b)
      | OpMarkHasAccount \<Rightarrow> snd (markHasAccount b)
      | OpRender now container \<Rightarrow> snd (snd (renderOptimisticUI num now container b)))"

fun run_ops :: "(string \<Rightarrow> int option) \<Rightarrow> cache_op list \<Rightarrow> browser \<Rightarrow> browser" where
  "run_ops num [] b = b"
| "run_ops num (op # ops) b = run_ops num ops (apply_op num op b)"

section \<open>BrowserDetect\<close>

definition inAppBrowserPatterns :: "string list" where
  "inAppBrowserPatterns =
     [''Instagram'', ''FBAN'', ''FBAV'', ''FB_IAB'', ''FB4A'', ''FBIOS'', ''TikTok'',
      ''BytedanceWebview'', ''Snapchat'', ''LinkedIn'', ''Pinterest'', ''Twitter'', ''Line'',
      ''KAKAOTALK'', ''WeChat'', ''MicroMessenger'', ''QQ'', ''Weibo'', ''GSA'']"

text \<open>
  The page's window: the three sources of the user-agent string (\<open>window.opera\<close> is
  read as the source reads it, a string or \<open>undefined\<close>), the four reads of the
  pop-up probe, each of which may throw, the current location, the identity SDK if it
  is loaded, and what the page has done: the navigations requested by assigning
  \<open>location.href\<close> and the SDK entry points called.
\<close>

record window =
  userAgent :: string
  vendor :: string
  opera :: "string option"
  opener_is_null :: "exn + bool"
  referrer_is_empty :: "exn + bool"
  self_is_top :: "exn + bool"
  open_is_undefined :: "exn + bool"
  location_href :: string
  Clerk :: "clerk_sdk option"
  navigations :: "string list"
  sdk_calls :: "sdk_call list"

text \<open>\<open>navigator.userAgent || navigator.vendor || window.opera || ''\<close>\<close>

definition user_agent :: "window \<Rightarrow> string" where
  "user_agent w =
     (if userAgent w \<noteq> [] then userAgent w
      else if vendor w \<noteq> [] then vendor w
      else (case opera w of
              None \<Rightarrow> []
            | Some s \<Rightarrow> if s \<noteq> [] then s else []))"

text \<open>\<open>ua.includes(pattern)\<close>, and \<open>/pattern/.test(ua)\<close> for a pattern of plain letters.\<close>

definition str_includes :: "string \<Rightarrow> string \<Rightarrow> bool" where
  "str_includes ua pattern = sublist pattern ua"

text \<open>The loop over the catalogue, in \<open>isInAppBrowser\<close> and in \<open>getInAppBrowserName\<close>.\<close>

fun some_pattern :: "string \<Rightarrow> string list \<Rightarrow> bool" where
  "some_pattern ua [] = False"
| "some_pattern ua (pattern # rest) = (if str_includes ua pattern then True else some_pattern ua rest)"

fun first_pattern :: "string \<Rightarrow> string list \<Rightarrow> string option" where
  "first_pattern ua [] = None"
| "first_pattern ua (pattern # rest) =
     (if str_includes ua pattern then Some pattern else first_pattern ua rest)"

definition android_webview :: "string \<Rightarrow> bool" where
  "android_webview ua = (str_includes ua ''Android'' \<and> str_includes ua ''wv'')"

definition ios_webview :: "string \<Rightarrow> bool" where
  "ios_webview ua =
     ((str_includes ua ''iPhone'' \<or> str_includes ua ''iPad'' \<or> str_includes ua ''iPod'')
      \<and> str_includes ua ''AppleWebKit'' \<and> \<not> str_includes ua ''Safari'')"

text \<open>\<open>a && b\<close> on reads that may throw: \<open>b\<close> is evaluated only when \<open>a\<close> is true.\<close>

definition js_and :: "exn + bool \<Rightarrow> exn + bool \<Rightarrow> exn + bool" where
  "js_and a b = (case a of Inl e \<Rightarrow> Inl e | Inr True \<Rightarrow> b | Inr False \<Rightarrow> Inr False)"

text \<open>The \<open>try\<close> block of \<open>_isPopupBlocked\<close>, then the function with its \<open>catch\<close>.\<close>

definition isPopupBlocked_try :: "window \<Rightarrow> exn + bool" where
  "isPopupBlocked_try w =
     (case js_and (js_and (opener_is_null w) (referrer_is_empty w)) (self_is_top w) of
        Inl e \<Rightarrow> Inl e
      | Inr True \<Rightarrow> Inr False
      | Inr False \<Rightarrow>
          (case open_is_undefined w of
             Inl e \<Rightarrow> Inl e
           | Inr True \<Rightarrow> Inr True
           | Inr False \<Rightarrow> Inr False))"

definition isPopupBlocked :: "window \<Rightarrow> exn + bool" where
  "isPopupBlocked w =
     (case isPopupBlocked_try w of
        Inl e \<Rightarrow> Inr False
      | Inr r \<Rightarrow> Inr r)"

definition isInAppBrowser :: "window \<Rightarrow> exn + bool" where
  "isInAppBrowser w =
     (let ua = user_agent w in
      if some_pattern ua inAppBrowserPatterns then Inr True
      else if android_webview ua then Inr True
      else if ios_webview ua then Inr True
      else (case isPopupBlocked w of
              Inl e \<Rightarrow> Inl e
            | Inr True \<Rightarrow> Inr True
            | Inr False \<Rightarrow> Inr False))"

definition getInAppBrowserName :: "window \<Rightarrow> string option" where
  "getInAppBrowserName w =
     (let ua = user_agent w in
      case first_pattern ua inAppBrowserPatterns of
        Some pattern \<Rightarrow> Some pattern
      | None \<Rightarrow>
          if android_webview ua then Some ''Android WebView''
          else if ios_webview ua then Some ''iOS WebView''
          else None)"

text \<open>
  \<open>encodeURIComponent\<close> on a string given as its UTF-8 bytes: a byte that is not an
  unreserved character is written as \<open>%\<close> and two upper-case hexadecimal digits.
\<close>

definition uri_unreserved :: "char \<Rightarrow> bool" where
  "uri_unreserved c =
     (c \<in> set (''ABCDEFGHIJKLMNOPQRSTUVWXYZabcdefghijklmnopqrstuvwxyz0123456789-_.!~*()''
               @ [CHR 0x27]))"

definition hex_digit :: "nat \<Rightarrow> char" where
  "hex_digit n = ''0123456789ABCDEF'' ! (n mod 16)"

definition encode_byte :: "char \<Rightarrow> string" where
  "encode_byte c =
     (if uri_unreserved c then [c]
      else [CHR ''%'', hex_digit (of_char c div 16), hex_digit (of_char c mod 16)])"

definition encodeURIComponent :: "string \<Rightarrow> string" where
  "encodeURIComponent s = concat (map encode_byte s)"

text \<open>\<open>redirectUrl || window.location.href\<close>; \<open>None\<close> is an omitted argument.\<close>

definition return_url :: "window \<Rightarrow> string option \<Rightarrow> string" where
  "return_url w redirectUrl =
     (case redirectUrl of
        None \<Rightarrow> location_href w
      | Some u \<Rightarrow> if u \<noteq> [] then u else location_href w)"

definition navigate :: "window \<Rightarrow> string \<Rightarrow> window" where
  "navigate w url = w\<lparr>navigations := navigations w @ [url]\<rparr>"

definition call_sdk :: "window \<Rightarrow> sdk_call \<Rightarrow> window" where
  "call_sdk w c = w\<lparr>sdk_calls := sdk_calls w @ [c]\<rparr>"

text \<open>\<open>window.Clerk && window.Clerk.openSignIn\<close>, and the same for sign-up.\<close>

definition clerk_has :: "window \<Rightarrow> sdk_call \<Rightarrow> bool" where
  "clerk_has w c =
     (case Clerk w of
        None \<Rightarrow> False
      | Some sdk \<Rightarrow> (case c of OpenSignIn \<Rightarrow> has_openSignIn sdk | OpenSignUp \<Rightarrow> has_openSignUp sdk))"

definition openSignIn :: "window \<Rightarrow> string option \<Rightarrow> (exn + unit) \<times> window" where
  "openSignIn w redirectUrl =
     (let returnUrl = return_url w redirectUrl in
      case isInAppBrowser w of
        Inl e \<Rightarrow> (Inl e, w)
      | Inr True \<Rightarrow>
          (Inr (), navigate w (''/sign-in?redirect_url='' @ encodeURIComponent returnUrl))
      | Inr False \<Rightarrow>
          if clerk_has w OpenSignIn then (Inr (), call_sdk w OpenSignIn)
          else (Inr (), navigate w (''/sign-in?redirect_url='' @ encodeURIComponent returnUrl)))"

definition openSignUp :: "window \<Rightarrow> string option \<Rightarrow> (exn + unit) \<times> window" where
  "openSignUp w redirectUrl =
     (let returnUrl = return_url w redirectUrl in
      case isInAppBrowser w of
        Inl e \<Rightarrow> (Inl e, w)
      | Inr True \<Rightarrow>
          (Inr (), navigate w (''/sign-up?redirect_url='' @ encodeURIComponent returnUrl))
      | Inr False \<Rightarrow>
          if clerk_has w OpenSignUp then (Inr (), call_sdk w OpenSignUp)
          else (Inr (), navigate w (''/sign-up?redirect_url='' @ encodeURIComponent returnUrl)))"

section \<open>Auxiliary definitions\<close>

text \<open>
  Notions used to state the properties: the storage with the cache entry removed, a
  property of a value (\<open>undefined\<close> also where the read would throw), the value \<open>get\<close>
  returns, whether \<open>hasAccount\<close> answers true, whether a value has a text, and whether
  any of the detector's four checks fires.
\<close>

definition purged :: "browser \<Rightarrow> browser" where
  "purged b = b\<lparr>items := (items b)(STORAGE_KEY := None)\<rparr>"

definition field_of :: "json \<Rightarrow> string \<Rightarrow> json option" where
  "field_of v name = (case get_prop v name of Inl e \<Rightarrow> None | Inr x \<Rightarrow> x)"

definition cached_of :: "(string \<Rightarrow> int option) \<Rightarrow> int \<Rightarrow> browser \<Rightarrow> json" where
  "cached_of num now b = (case fst (get num now b) of Inl e \<Rightarrow> JNull | Inr v \<Rightarrow> v)"

definition flag_set :: "browser \<Rightarrow> bool" where
  "flag_set b = (case hasAccount b of Inl e \<Rightarrow> False | Inr has \<Rightarrow> has)"

definition text_defined :: "json option \<Rightarrow> bool" where
  "text_defined v =
     (case v of
        None \<Rightarrow> True
      | Some x \<Rightarrow> (case to_string x of Inl e \<Rightarrow> False | Inr s \<Rightarrow> True))"

definition restrictive :: "window \<Rightarrow> bool" where
  "restrictive w =
     (some_pattern (user_agent w) inAppBrowserPatterns \<or> android_webview (user_agent w)
      \<or> ios_webview (user_agent w) \<or> isPopupBlocked w = Inr True)"

text \<open>
  Concrete storage states: an empty one; one with a fresh signed-in record and the
  account flag; one with a signed-out record and the flag; one whose record has only a
  \<open>lastSync\<close>; one that holds a record and no flag and whose quota is exceeded; and
  one whose record carries an object with an own \<open>toString\<close> property as its image.
  An empty container.
\<close>

definition empty_browser :: browser where
  "empty_browser = \<lparr>items = Map.empty, storage_denied = False, quota_exceeded = False, console = []\<rparr>"

definition signed_in_browser :: browser where
  "signed_in_browser =
     \<lparr>items = [STORAGE_KEY \<mapsto> Doc (JObj [(''isLoggedIn'', JBool True), (''userId'', JStr ''user_1''),
                                         (''userName'', JStr ''Ada''),
                                         (''userImage'', JStr ''https://x/y.png''),
                                         (''lastSync'', JNum 1000)]),
               HAS_ACCOUNT_KEY \<mapsto> Doc (JBool True)],
      storage_denied = False, quota_exceeded = False, console = []\<rparr>"


definition bare_browser :: browser where
  "bare_browser =
     \<lparr>items = [STORAGE_KEY \<mapsto> Doc (JObj [(''lastSync'', JNum 1000)])],
      storage_denied = False, quota_exceeded = False, console = []\<rparr>"


definition hostile_browser :: browser where
  "hostile_browser =
     \<lparr>items = [STORAGE_KEY \<mapsto> Doc (JObj [(''isLoggedIn'', JBool True),
                                          (''userImage'', JObj [(''toString'', JNum 1)]),
                                          (''lastSync'', JNum 1000)])],
      storage_denied = False, quota_exceeded = False, console = []\<rparr>"

definition empty_container :: container where
  "empty_container = \<lparr>innerHTML = [], button_onclick = None\<rparr>"

text \<open>
  Concrete windows: a desktop browser opened directly on a page, with the SDK loaded;
  and the same window with the user-agent string of an in-app browser.
\<close>

definition desktop_window :: window where
  "desktop_window =
     \<lparr>userAgent = ''Mozilla/5.0 (Windows NT 10.0; Win64; x64) AppleWebKit/537.36 (KHTML, like Gecko) Chrome/120.0.0.0 Safari/537.36'',
      vendor = ''Google Inc.'', opera = None,
      opener_is_null = Inr True, referrer_is_empty = Inr True, self_is_top = Inr True,
      open_is_undefined = Inr False,
      location_href = ''https://guruji.example/courses?id=7'',
      Clerk = Some \<lparr>has_openSignIn = True, has_openSignUp = True\<rparr>,
      navigations = [], sdk_calls = []\<rparr>"

definition facebook_window :: window where
  "facebook_window =
     desktop_window\<lparr>userAgent := ''Mozilla/5.0 (iPhone; CPU iPhone OS 16_0 like Mac OS X) AppleWebKit/605.1.15 (KHTML, like Gecko) Mobile/15E148 [FBAN/FBIOS;FBAV/400.0]''\<rparr>"

definition instagram_window :: window where
  "instagram_window =
     desktop_window\<lparr>userAgent := ''Mozilla/5.0 (Linux; Android 13) AppleWebKit/537.36 (KHTML, like Gecko) Chrome/120.0.0.0 Mobile Safari/537.36 Instagram 300.0.0''\<rparr>"

definition android_webview_window :: window where
  "android_webview_window =
     desktop_window\<lparr>userAgent := ''Mozilla/5.0 (Linux; Android 13; wv) AppleWebKit/537.36 (KHTML, like Gecko) Chrome/120.0.0.0 Mobile Safari/537.36''\<rparr>"

definition ios_webview_window :: window where
  "ios_webview_window =
     desktop_window\<lparr>userAgent := ''Mozilla/5.0 (iPhone; CPU iPhone OS 16_0 like Mac OS X) AppleWebKit/605.1.15 (KHTML, like Gecko) Mobile/15E148''\<rparr>"

section \<open>Properties of the cache\<close>

subsection \<open>Storage and cache operations\<close>

lemma keys_distinct: "STORAGE_KEY \<noteq> HAS_ACCOUNT_KEY"
  by (simp add: STORAGE_KEY_def HAS_ACCOUNT_KEY_def)

lemma clear_eq: "clear b = (Inr (), if storage_denied b then b else purged b)"
  by (simp add: clear_def removeItem_def purged_def)

lemma hasAccount_eq:
  "hasAccount b = Inr (\<not> storage_denied b \<and> items b HAS_ACCOUNT_KEY = Some (Doc (JBool True)))"
  by (simp add: hasAccount_def getItem_def)

lemma hasAccount_never_raises: "hasAccount b \<noteq> Inl e"
  by (simp add: hasAccount_eq)

lemma console_warn_simps [simp]:
  "items (console_warn b m) = items b"
  "storage_denied (console_warn b m) = storage_denied b"
  "quota_exceeded (console_warn b m) = quota_exceeded b"
  by (simp_all add: console_warn_def)

lemma purged_simps [simp]:
  "items (purged b) = (items b)(STORAGE_KEY := None)"
  "storage_denied (purged b) = storage_denied b"
  "quota_exceeded (purged b) = quota_exceeded b"
  by (simp_all add: purged_def)

lemma markHasAccount_eq:
  "markHasAccount b =
     (Inr (), if storage_denied b \<or> quota_exceeded b
              then console_warn b ''AuthCache: Unable to save account status''
              else b\<lparr>items := (items b)(HAS_ACCOUNT_KEY \<mapsto> Doc (JBool True))\<rparr>)"
  by (simp add: markHasAccount_def setItem_def)

lemma set_data_Obj:
  "set_data now (JObj kvs) =
     Inr (JObj [(''isLoggedIn'', js_or_lit (map_of kvs ''isLoggedIn'') (JBool False)),
               (''userId'', js_or_lit (map_of kvs ''userId'') JNull),
               (''userName'', js_or_lit (map_of kvs ''userName'') (JStr '''')),
               (''userImage'', js_or_lit (map_of kvs ''userImage'') JNull),
               (''lastSync'', JNum now)])"
  by (simp add: set_data_def)

lemma set_cache_eq:
  "set_cache now state b =
     (Inr (), case set_data now state of
                Inl e \<Rightarrow> console_warn b ''AuthCache: Unable to save state''
              | Inr data \<Rightarrow>
                  if storage_denied b \<or> quota_exceeded b
                  then console_warn b ''AuthCache: Unable to save state''
                  else b\<lparr>items := (items b)(STORAGE_KEY \<mapsto> Doc data)\<rparr>)"
  by (simp add: set_cache_def set_try_def setItem_def JSON_stringify_def split: sum.splits)

lemma set_cache_stores:
  assumes "\<not> storage_denied b" and "\<not> quota_exceeded b" and "set_data now state = Inr data"
  shows "snd (set_cache now state b) = b\<lparr>items := (items b)(STORAGE_KEY \<mapsto> Doc data)\<rparr>"
  using assms by (simp add: set_cache_eq)

lemma syncWithClerk_falsy:
  "\<not> truthy clerkUser \<Longrightarrow> syncWithClerk now clerkUser b = clear b"
  by (simp add: syncWithClerk_def)

lemma get_prop_Inl: "get_prop v name = Inl e \<longleftrightarrow> v = JNull \<and> e = TypeError"
  by (cases "(v, name)" rule: get_prop.cases) auto

lemma get_eq:
  "get num now b =
     (if storage_denied b then (Inr JNull, b)
      else case items b STORAGE_KEY of
             None \<Rightarrow> (Inr JNull, b)
           | Some EmptyText \<Rightarrow> (Inr JNull, b)
           | Some BadText \<Rightarrow> (Inr JNull, purged b)
           | Some (Doc v) \<Rightarrow>
               (case get_prop v ''lastSync'' of
                  Inl e \<Rightarrow> (Inr JNull, purged b)
                | Inr lastSync \<Rightarrow>
                    (case expired num now lastSync of
                       Inl e \<Rightarrow> (Inr JNull, purged b)
                     | Inr True \<Rightarrow> (Inr JNull, purged b)
                     | Inr False \<Rightarrow> (Inr v, b))))"
  by (simp add: get_def get_try_def getItem_def JSON_parse_def clear_eq
           split: option.splits stored.splits sum.splits bool.splits)

lemma get_never_raises: "\<exists>v. fst (get num now b) = Inr v"
  by (simp add: get_eq split: option.splits stored.splits sum.splits bool.splits)

lemma get_value_iff:
  "fst (get num now b) = Inr v \<and> v \<noteq> JNull \<longleftrightarrow>
     \<not> storage_denied b \<and> items b STORAGE_KEY = Some (Doc v) \<and> v \<noteq> JNull
       \<and> expired num now (field_of v ''lastSync'') = Inr False"
  by (auto simp: get_eq field_of_def get_prop_Inl
           split: option.splits stored.splits sum.splits bool.splits)

lemma get_storage:
  "snd (get num now b) =
     (if fst (get num now b) \<noteq> Inr JNull \<or> storage_denied b
         \<or> items b STORAGE_KEY = None \<or> items b STORAGE_KEY = Some EmptyText
      then b else purged b)"
  by (auto simp: get_eq get_prop_Inl split: option.splits stored.splits sum.splits bool.splits)

lemma get_stored:
  assumes "\<not> storage_denied b" and "items b STORAGE_KEY = Some (Doc (JObj kvs))"
    and "map_of kvs ''lastSync'' = Some (JNum t)" and "later - t \<le> CACHE_TTL"
  shows "fst (get num later b) = Inr (JObj kvs)"
  using assms by (simp add: get_eq expired_def)

lemma get_keeps_hasAccount: "hasAccount (snd (get num now b)) = hasAccount b"
  using keys_distinct by (simp add: get_storage hasAccount_eq)



lemma get_signed_in_browser:
  "get (\<lambda>s. None) 2000 signed_in_browser =
     (Inr (JObj [(''isLoggedIn'', JBool True), (''userId'', JStr ''user_1''),
                 (''userName'', JStr ''Ada''), (''userImage'', JStr ''https://x/y.png''),
                 (''lastSync'', JNum 1000)]),
      signed_in_browser)"
  using keys_distinct by (simp add: get_eq signed_in_browser_def expired_def CACHE_TTL_def)

subsection \<open>Reading the cache\<close>

text \<open>
  Claim C4, as amended. \<open>get\<close> never raises. It returns \<open>null\<close> and leaves the storage as
  it is when the storage is unreadable or the entry is absent. When the storage is
  readable, it returns \<open>null\<close> and removes the entry if the entry is a non-empty text
  that does not parse or parses to \<open>null\<close>; and for an entry that parses to a value with
  a numeric \<open>lastSync\<close> it returns that value, whatever its other fields, and keeps the
  entry if \<open>now - lastSync \<le> TTL\<close>, and otherwise returns \<open>null\<close> and removes the entry.
  A value other than \<open>null\<close> is returned only if it is the stored one.
\<close>

theorem get_returns_unexpired_parsed_value:
  "(\<exists>r. fst (get num now b) = Inr r) \<and>
   (storage_denied b \<or> items b STORAGE_KEY = None \<longrightarrow> get num now b = (Inr JNull, b)) \<and>
   (\<not> storage_denied b \<and> (items b STORAGE_KEY = Some BadText \<or> items b STORAGE_KEY = Some (Doc JNull))
      \<longrightarrow> get num now b = (Inr JNull, purged b)) \<and>
   (\<not> storage_denied b \<and> items b STORAGE_KEY = Some (Doc v) \<and> field_of v ''lastSync'' = Some (JNum t) \<longrightarrow>
      get num now b = (if now - t \<le> CACHE_TTL then (Inr v, b) else (Inr JNull, purged b))) \<and>
   (fst (get num now b) = Inr v \<and> v \<noteq> JNull \<longrightarrow>
      \<not> storage_denied b \<and> items b STORAGE_KEY = Some (Doc v))"
proof (intro conjI impI)
  show "\<exists>r. fst (get num now b) = Inr r"
    by (rule get_never_raises)
next
  assume "storage_denied b \<or> items b STORAGE_KEY = None"
  then show "get num now b = (Inr JNull, b)"
    by (auto simp: get_eq)
next
  assume "\<not> storage_denied b \<and>
          (items b STORAGE_KEY = Some BadText \<or> items b STORAGE_KEY = Some (Doc JNull))"
  then show "get num now b = (Inr JNull, purged b)"
    by (auto simp: get_eq)
next
  assume a: "\<not> storage_denied b \<and> items b STORAGE_KEY = Some (Doc v)
             \<and> field_of v ''lastSync'' = Some (JNum t)"
  then have "get_prop v ''lastSync'' = Inr (Some (JNum t))"
    by (auto simp: field_of_def split: sum.splits)
  with a show "get num now b = (if now - t \<le> CACHE_TTL then (Inr v, b) else (Inr JNull, purged b))"
    by (simp add: get_eq expired_def not_le)
next
  assume "fst (get num now b) = Inr v \<and> v \<noteq> JNull"
  then have "\<not> storage_denied b \<and> items b STORAGE_KEY = Some (Doc v)"
    using get_value_iff [of num now b v] by blast
  then show "\<not> storage_denied b" and "items b STORAGE_KEY = Some (Doc v)"
    by simp_all
qed

theorem get_returns_unexpired_parsed_value_witness:
  "get (\<lambda>s. None) 2000 signed_in_browser =
     (Inr (JObj [(''isLoggedIn'', JBool True), (''userId'', JStr ''user_1''),
                 (''userName'', JStr ''Ada''), (''userImage'', JStr ''https://x/y.png''),
                 (''lastSync'', JNum 1000)]),
      signed_in_browser) \<and>
   get (\<lambda>s. None) (1000 + CACHE_TTL + 1) signed_in_browser = (Inr JNull, purged signed_in_browser) \<and>
   items (purged signed_in_browser) STORAGE_KEY = None \<and>
   get (\<lambda>s. None) 2000 (signed_in_browser\<lparr>storage_denied := True\<rparr>) =
     (Inr JNull, signed_in_browser\<lparr>storage_denied := True\<rparr>) \<and>
   get (\<lambda>s. None) 2000 (empty_browser\<lparr>items := [STORAGE_KEY \<mapsto> BadText]\<rparr>) =
     (Inr JNull, purged (empty_browser\<lparr>items := [STORAGE_KEY \<mapsto> BadText]\<rparr>)) \<and>
   fst (get (\<lambda>s. None) 2000 bare_browser) = Inr (JObj [(''lastSync'', JNum 1000)]) \<and>
   items bare_browser STORAGE_KEY = Some (Doc (JObj [(''lastSync'', JNum 1000)]))"
proof -
  define v where "v = JObj [(''isLoggedIn'', JBool True), (''userId'', JStr ''user_1''),
                 (''userName'', JStr ''Ada''), (''userImage'', JStr ''https://x/y.png''),
                 (''lastSync'', JNum 1000)]"
  have stored: "\<not> storage_denied signed_in_browser \<and> items signed_in_browser STORAGE_KEY = Some (Doc v)
                  \<and> field_of v ''lastSync'' = Some (JNum 1000)"
    using keys_distinct by (simp add: signed_in_browser_def v_def field_of_def)
  have fresh: "get (\<lambda>s. None) 2000 signed_in_browser = (Inr v, signed_in_browser)"
    using get_returns_unexpired_parsed_value
            [where num = "\<lambda>s. None" and now = 2000 and b = signed_in_browser and v = v and t = 1000]
          stored
    by (simp add: CACHE_TTL_def)
  have stale: "get (\<lambda>s. None) (1000 + CACHE_TTL + 1) signed_in_browser
                 = (Inr JNull, purged signed_in_browser)"
    using get_returns_unexpired_parsed_value
            [where num = "\<lambda>s. None" and now = "1000 + CACHE_TTL + 1" and b = signed_in_browser
               and v = v and t = 1000]
          stored
    by simp
  have gone: "items (purged signed_in_browser) STORAGE_KEY = None"
    by (simp add: purged_def)
  have denied: "get (\<lambda>s. None) 2000 (signed_in_browser\<lparr>storage_denied := True\<rparr>) =
                  (Inr JNull, signed_in_browser\<lparr>storage_denied := True\<rparr>)"
    using get_returns_unexpired_parsed_value
            [where num = "\<lambda>s. None" and now = 2000
               and b = "signed_in_browser\<lparr>storage_denied := True\<rparr>"]
    by simp
  have bad: "get (\<lambda>s. None) 2000 (empty_browser\<lparr>items := [STORAGE_KEY \<mapsto> BadText]\<rparr>) =
               (Inr JNull, purged (empty_browser\<lparr>items := [STORAGE_KEY \<mapsto> BadText]\<rparr>))"
    using get_returns_unexpired_parsed_value
            [where num = "\<lambda>s. None" and now = 2000
               and b = "empty_browser\<lparr>items := [STORAGE_KEY \<mapsto> BadText]\<rparr>"]
    by (simp add: empty_browser_def)
  have returned: "fst (get (\<lambda>s. None) 2000 bare_browser) = Inr (JObj [(''lastSync'', JNum 1000)])"
    by (simp add: get_eq bare_browser_def expired_def CACHE_TTL_def)
  have kept: "items bare_browser STORAGE_KEY = Some (Doc (JObj [(''lastSync'', JNum 1000)]))"
    using get_returns_unexpired_parsed_value
            [where num = "\<lambda>s. None" and now = 2000 and b = bare_browser
               and v = "JObj [(''lastSync'', JNum 1000)]"]
          returned
    by simp
  from fresh stale gone denied bad returned kept show ?thesis
    by (simp add: v_def)
qed

text \<open>
  Claim C4 as stated fails: the stored text \<open>{"lastSync":1000}\<close> is not a well-formed
  record (it has no \<open>isLoggedIn\<close>, no \<open>userName\<close>), yet within the TTL \<open>get\<close> returns it
  and keeps it in the storage.
\<close>

theorem get_returns_malformed_value_counterexample:
  "get (\<lambda>s. None) 2000 bare_browser = (Inr (JObj [(''lastSync'', JNum 1000)]), bare_browser)"
  by (simp add: get_def get_try_def getItem_def JSON_parse_def expired_def CACHE_TTL_def
                bare_browser_def)

subsection \<open>Writing and reading back\<close>

text \<open>
  Claim C5, as amended. When the storage accepts the write, \<open>get\<close> at any time within
  the TTL of a \<open>set\<close> returns a record whose four fields are the supplied ones merged
  over the defaults by \<open>||\<close>: a supplied value that is falsy (\<open>false\<close>, \<open>0\<close>, the
  empty string, \<open>null\<close>) is replaced by the default as a missing one is. Its
  \<open>lastSync\<close> is the time of the write, whatever \<open>lastSync\<close> the caller supplied.
\<close>

theorem set_then_get_returns_merged_record:
  assumes "\<not> storage_denied b" and "\<not> quota_exceeded b" and "later - now \<le> CACHE_TTL"
  shows "fst (get num later (snd (set_cache now (JObj kvs) b))) =
           Inr (JObj [(''isLoggedIn'', js_or_lit (map_of kvs ''isLoggedIn'') (JBool False)),
                     (''userId'', js_or_lit (map_of kvs ''userId'') JNull),
                     (''userName'', js_or_lit (map_of kvs ''userName'') (JStr '''')),
                     (''userImage'', js_or_lit (map_of kvs ''userImage'') JNull),
                     (''lastSync'', JNum now)])"
proof -
  have "snd (set_cache now (JObj kvs) b) =
          b\<lparr>items := (items b)(STORAGE_KEY \<mapsto>
             Doc (JObj [(''isLoggedIn'', js_or_lit (map_of kvs ''isLoggedIn'') (JBool False)),
                     (''userId'', js_or_lit (map_of kvs ''userId'') JNull),
                     (''userName'', js_or_lit (map_of kvs ''userName'') (JStr '''')),
                     (''userImage'', js_or_lit (map_of kvs ''userImage'') JNull),
                     (''lastSync'', JNum now)]))\<rparr>"
    using assms(1,2) by (rule set_cache_stores) (rule set_data_Obj)
  then show ?thesis
    using assms(1,3) by (simp add: get_stored [where t = now])
qed

theorem set_then_get_returns_merged_record_witness:
  "\<not> storage_denied empty_browser \<and> \<not> quota_exceeded empty_browser \<and>
   (2000::int) - 1000 \<le> CACHE_TTL \<and>
   fst (get (\<lambda>s. None) 2000
          (snd (set_cache 1000
                  (JObj [(''isLoggedIn'', JBool True), (''userName'', JStr ''Ada''),
                        (''lastSync'', JNum 5)])
                  empty_browser))) =
     Inr (JObj [(''isLoggedIn'', JBool True), (''userId'', JNull), (''userName'', JStr ''Ada''),
               (''userImage'', JNull), (''lastSync'', JNum 1000)])"
proof -
  have readable: "\<not> storage_denied empty_browser"
    and room: "\<not> quota_exceeded empty_browser"
    by (simp_all add: empty_browser_def)
  have fresh: "(2000::int) - 1000 \<le> CACHE_TTL"
    by (simp add: CACHE_TTL_def)
  show ?thesis
    using set_then_get_returns_merged_record
            [OF readable room fresh,
             where num = "\<lambda>s. None"
               and kvs = "[(''isLoggedIn'', JBool True), (''userName'', JStr ''Ada''),
                           (''lastSync'', JNum 5)]"]
          readable room fresh
    by (simp add: js_or_lit_def)
qed

text \<open>
  Claim C5 as stated fails: a supplied \<open>userId\<close> that is the empty string is read back
  as \<open>null\<close>, not as the supplied value.
\<close>

theorem set_replaces_empty_userId_counterexample:
  "fst (get (\<lambda>s. None) 1000
          (snd (set_cache 1000 (JObj [(''userId'', JStr ''''), (''userName'', JStr ''Ada'')])
                  empty_browser))) =
     Inr (JObj [(''isLoggedIn'', JBool False), (''userId'', JNull), (''userName'', JStr ''Ada''),
               (''userImage'', JNull), (''lastSync'', JNum 1000)])"
  by (simp add: get_def get_try_def getItem_def JSON_parse_def expired_def CACHE_TTL_def
                set_cache_def set_try_def set_data_def setItem_def JSON_stringify_def
                js_or_lit_def empty_browser_def)

subsection \<open>Reconciliation with the identity provider\<close>

lemma js_or_lit_idem: "js_or_lit (Some (js_or_lit a d)) d = js_or_lit a d"
  by (simp add: js_or_lit_def split: option.splits)

lemma js_or_lit_User: "js_or_lit (Some (js_or_lit a (JStr ''User''))) (JStr '''') = js_or_lit a (JStr ''User'')"
  by (simp add: js_or_lit_def split: option.splits)

lemma map_of_own_property: "map_of (own_property name v @ rest) name = (case v of None \<Rightarrow> map_of rest name | Some p \<Rightarrow> Some p)"
  by (simp add: own_property_def split: option.splits)

lemma clerk_state_Obj:
  "clerk_state (JObj kvs) =
     Inr (JObj ([(''isLoggedIn'', JBool True)] @ own_property ''userId'' (map_of kvs ''id'') @
               [(''userName'', js_or_lit (js_or (map_of kvs ''fullName'') (map_of kvs ''firstName''))
                                 (JStr ''User'')),
                (''userImage'', js_or_lit (map_of kvs ''imageUrl'') JNull)]))"
  by (simp add: clerk_state_def)

lemma set_data_clerk_state:
  "set_data now (JObj ((''isLoggedIn'', JBool True) # own_property ''userId'' uid @
               [(''userName'', js_or_lit n (JStr ''User'')), (''userImage'', js_or_lit img JNull)])) =
   Inr (JObj [(''isLoggedIn'', JBool True), (''userId'', js_or_lit uid JNull),
             (''userName'', js_or_lit n (JStr ''User'')), (''userImage'', js_or_lit img JNull),
             (''lastSync'', JNum now)])"
  by (cases uid) (simp_all add: set_data_def own_property_def js_or_lit_idem js_or_lit_User, simp_all add: js_or_lit_def)




text \<open>
  Claim C2. For every prior storage state and every read time, after \<open>syncWithClerk\<close>
  with an absent (falsy) identity, \<open>get\<close> returns \<open>null\<close>, \<open>hasAccount\<close> returns what it
  returned before, and the flag entry is the one that was there.
\<close>

theorem sync_absent_forgets_session_keeps_flag:
  "\<not> truthy clerkUser \<Longrightarrow>
     fst (syncWithClerk now clerkUser b) = Inr () \<and>
     fst (get num later (snd (syncWithClerk now clerkUser b))) = Inr JNull \<and>
     hasAccount (snd (syncWithClerk now clerkUser b)) = hasAccount b \<and>
     items (snd (syncWithClerk now clerkUser b)) HAS_ACCOUNT_KEY = items b HAS_ACCOUNT_KEY"
  using keys_distinct
  by (simp add: syncWithClerk_falsy clear_eq get_eq hasAccount_eq)

theorem sync_absent_forgets_session_keeps_flag_witness:
  "\<not> truthy JNull \<and>
   fst (get (\<lambda>s. None) 2000 signed_in_browser) \<noteq> Inr JNull \<and>
   fst (get (\<lambda>s. None) 2000 (snd (syncWithClerk 2000 JNull signed_in_browser)))
     = Inr JNull \<and>
   hasAccount (snd (syncWithClerk 2000 JNull signed_in_browser)) = Inr True"
proof -
  have absent: "\<not> truthy JNull"
    by simp
  have before: "fst (get (\<lambda>s. None) 2000 signed_in_browser) \<noteq> Inr JNull"
    by (simp add: get_eq signed_in_browser_def expired_def CACHE_TTL_def)
  have flag: "hasAccount signed_in_browser = Inr True"
    using keys_distinct by (simp add: hasAccount_eq signed_in_browser_def)
  show ?thesis
    using sync_absent_forgets_session_keeps_flag
            [where clerkUser = "JNull" and num = "\<lambda>s. None" and now = 2000
               and later = 2000 and b = signed_in_browser]
          absent before flag
    by simp
qed

section \<open>Properties of rendering\<close>

lemma hasAccount_flag_set: "hasAccount b = Inr (flag_set b)"
  by (simp add: flag_set_def hasAccount_eq)

lemma get_cached_of: "fst (get num now b) = Inr (cached_of num now b)"
  using get_never_raises [of num now b] by (auto simp: cached_of_def)

lemma cached_logged_in_eq:
  "cached_logged_in cached = Inr (truthy cached \<and> truthy_opt (field_of cached ''isLoggedIn''))"
  by (cases cached) (simp_all add: cached_logged_in_def field_of_def)

lemma avatar_glyph_eq:
  "truthy cached \<Longrightarrow>
     avatar_glyph cached =
       (case field_of cached ''userImage'' of
          None \<Rightarrow> Inr avatar_icon
        | Some img \<Rightarrow>
            if truthy img
            then (case to_string img of Inl e \<Rightarrow> Inl e | Inr src \<Rightarrow> Inr (avatar_img src))
            else Inr avatar_icon)"
  by (cases cached) (simp_all add: avatar_glyph_def field_of_def split: option.splits)

lemma avatar_glyph_defined:
  assumes "truthy cached" and "text_defined (field_of cached ''userImage'')"
  shows "\<exists>glyph. avatar_glyph cached = Inr glyph"
  using assms
  by (auto simp: avatar_glyph_eq text_defined_def split: option.splits sum.splits)

lemma set_innerHTML_eq: "set_innerHTML c html = c\<lparr>innerHTML := html, button_onclick := None\<rparr>"
  by (simp add: set_innerHTML_def)

lemma render_Some:
  "renderOptimisticUI num now (Some c) b =
     (if truthy (cached_of num now b)
           \<and> truthy_opt (field_of (cached_of num now b) ''isLoggedIn'')
      then (case avatar_glyph (cached_of num now b) of
              Inl e \<Rightarrow> (Inl e, Some c, snd (get num now b))
            | Inr glyph \<Rightarrow>
                (Inr True, Some (set_innerHTML c (logged_in_html glyph)), snd (get num now b)))
      else if cached_of num now b = JNull
      then (Inr True,
            Some (set_innerHTML c (loading_button_html (button_text (flag_set b)))),
            snd (get num now b))
      else (Inr True,
            Some ((set_innerHTML c
                     (action_button_html (button_icon (flag_set b)) (button_text (flag_set b))))
                  \<lparr>button_onclick := Some OptimisticClick\<rparr>),
            snd (get num now b)))"
proof -
  obtain b' where g: "get num now b = (Inr (cached_of num now b), b')"
    using get_cached_of [of num now b] by (cases "get num now b") simp
  have h: "hasAccount b' = Inr (flag_set b)"
    using get_keeps_hasAccount [of num now b] g by (simp add: hasAccount_flag_set)
  show ?thesis
    by (auto simp: renderOptimisticUI_def g h cached_logged_in_eq split: sum.splits)
qed

lemma render_browser:
  "snd (snd (renderOptimisticUI num now container b)) =
     (case container of None \<Rightarrow> b | Some c \<Rightarrow> snd (get num now b))"
  by (simp add: renderOptimisticUI_def hasAccount_eq
           split: option.splits prod.splits sum.splits bool.splits)

lemma templates_nonempty:
  "logged_in_html glyph \<noteq> []" "loading_button_html t \<noteq> []" "action_button_html i t \<noteq> []"
  by (simp_all add: logged_in_html_def loading_button_html_def action_button_html_def nl_def)

lemma templates_distinct:
  "logged_in_html glyph \<noteq> loading_button_html t"
  "logged_in_html glyph \<noteq> action_button_html i t"
  "loading_button_html t \<noteq> action_button_html i t'"
  by (simp_all add: logged_in_html_def loading_button_html_def action_button_html_def nl_def)



text \<open>
  Claim C10, as amended. With no container \<open>renderOptimisticUI\<close> returns false and changes
  neither the container nor the storage. With a container, in every storage state whose
  cached \<open>userImage\<close> (if there is one) has a text, it returns true and replaces the
  container's markup with a non-empty one, which is an instance of exactly one of the
  three templates; the storage changes as \<open>get\<close> changes it.
\<close>

theorem render_total_when_image_has_text:
  assumes "text_defined (field_of (cached_of num now b) ''userImage'')"
  shows
    "renderOptimisticUI num now None b = (Inr False, None, b) \<and>
     (\<exists>html handler.
        html \<noteq> [] \<and>
        renderOptimisticUI num now (Some c) b =
          (Inr True, Some (c\<lparr>innerHTML := html, button_onclick := handler\<rparr>),
           snd (get num now b)) \<and>
        ((\<exists>glyph. html = logged_in_html glyph) \<or> (\<exists>t. html = loading_button_html t)
           \<or> (\<exists>i t. html = action_button_html i t))) \<and>
     logged_in_html glyph \<noteq> loading_button_html t \<and>
     logged_in_html glyph \<noteq> action_button_html i t \<and>
     loading_button_html t \<noteq> action_button_html i t'"
proof -
  have absent: "renderOptimisticUI num now None b = (Inr False, None, b)"
    by (simp add: renderOptimisticUI_def)
  have present: "\<exists>html handler.
        html \<noteq> [] \<and>
        renderOptimisticUI num now (Some c) b =
          (Inr True, Some (c\<lparr>innerHTML := html, button_onclick := handler\<rparr>),
           snd (get num now b)) \<and>
        ((\<exists>glyph. html = logged_in_html glyph) \<or> (\<exists>t. html = loading_button_html t)
           \<or> (\<exists>i t. html = action_button_html i t))"
  proof (cases "truthy (cached_of num now b)
                  \<and> truthy_opt (field_of (cached_of num now b) ''isLoggedIn'')")
    case True
    then obtain glyph where "avatar_glyph (cached_of num now b) = Inr glyph"
      using avatar_glyph_defined assms by blast
    with True have "renderOptimisticUI num now (Some c) b =
          (Inr True, Some (c\<lparr>innerHTML := logged_in_html glyph, button_onclick := None\<rparr>),
           snd (get num now b))"
      by (simp add: render_Some set_innerHTML_eq)
    then show ?thesis
      using templates_nonempty(1) by blast
  next
    case False
    show ?thesis
    proof (cases "cached_of num now b = JNull")
      case True
      with False have "renderOptimisticUI num now (Some c) b =
          (Inr True,
           Some (c\<lparr>innerHTML := loading_button_html (button_text (flag_set b)),
                   button_onclick := None\<rparr>),
           snd (get num now b))"
        by (simp add: render_Some set_innerHTML_eq)
      then show ?thesis
        using templates_nonempty(2) by blast
    next
      case other: False
      with False have "renderOptimisticUI num now (Some c) b =
          (Inr True,
           Some (c\<lparr>innerHTML :=
                     action_button_html (button_icon (flag_set b)) (button_text (flag_set b)),
                   button_onclick := Some OptimisticClick\<rparr>),
           snd (get num now b))"
        by (auto simp: render_Some set_innerHTML_eq)
      then show ?thesis
        using templates_nonempty(3) by blast
    qed
  qed
  from absent present templates_distinct show ?thesis
    by blast
qed

theorem render_total_when_image_has_text_witness:
  "text_defined (field_of (cached_of (\<lambda>s. None) 2000 signed_in_browser) ''userImage'') \<and>
   renderOptimisticUI (\<lambda>s. None) 2000 None signed_in_browser = (Inr False, None, signed_in_browser) \<and>
   (\<exists>html handler.
      html \<noteq> [] \<and>
      renderOptimisticUI (\<lambda>s. None) 2000 (Some empty_container) signed_in_browser =
        (Inr True, Some (empty_container\<lparr>innerHTML := html, button_onclick := handler\<rparr>),
         signed_in_browser))"
proof -
  have has_text: "text_defined (field_of (cached_of (\<lambda>s. None) 2000 signed_in_browser) ''userImage'')"
    by (simp add: cached_of_def get_signed_in_browser field_of_def text_defined_def)
  have same: "snd (get (\<lambda>s. None) 2000 signed_in_browser) = signed_in_browser"
    by (simp add: get_signed_in_browser)
  show ?thesis
    using render_total_when_image_has_text [OF has_text, where c = empty_container] has_text
    unfolding same
    by blast
qed

text \<open>
  Claim C10 as stated fails: with a cached record that is logged in and whose
  \<open>userImage\<close> is an object with an own \<open>toString\<close> property, building the markup throws
  a TypeError; nothing is returned and the container keeps its markup.
\<close>

theorem render_raises_on_image_without_text_counterexample:
  "renderOptimisticUI (\<lambda>s. None) 2000 (Some empty_container) hostile_browser =
     (Inl TypeError, Some empty_container, hostile_browser)"
  by (simp add: renderOptimisticUI_def get_def get_try_def getItem_def JSON_parse_def
                expired_def CACHE_TTL_def cached_logged_in_def avatar_glyph_def
                hostile_browser_def)

section \<open>The account flag is sticky\<close>

lemma get_keeps_flag:
  "hasAccount b = Inr True \<Longrightarrow> hasAccount (snd (get num now b)) = Inr True"
  using keys_distinct
  by (simp add: get_storage hasAccount_eq)

lemma clear_keeps_flag:
  "hasAccount b = Inr True \<Longrightarrow> hasAccount (snd (clear b)) = Inr True"
  using keys_distinct by (simp add: clear_eq hasAccount_eq)

lemma set_cache_keeps_flag:
  "hasAccount b = Inr True \<Longrightarrow> hasAccount (snd (set_cache now state b)) = Inr True"
  using keys_distinct by (simp add: set_cache_eq hasAccount_eq split: sum.splits)

lemma markHasAccount_keeps_flag:
  "hasAccount b = Inr True \<Longrightarrow> hasAccount (snd (markHasAccount b)) = Inr True"
  by (simp add: markHasAccount_eq hasAccount_eq)

lemma syncWithClerk_keeps_flag:
  assumes "hasAccount b = Inr True"
  shows "hasAccount (snd (syncWithClerk now clerkUser b)) = Inr True"
proof (cases "truthy clerkUser")
  case False
  then show ?thesis
    using assms by (simp add: syncWithClerk_falsy clear_keeps_flag)
next
  case True
  obtain m where mark: "markHasAccount b = (Inr (), m)"
    by (simp add: markHasAccount_eq)
  then have m: "hasAccount m = Inr True"
    using markHasAccount_keeps_flag [OF assms] by simp
  show ?thesis
  proof (cases "clerk_state clerkUser")
    case (Inl e)
    then show ?thesis
      using True mark m by (simp add: syncWithClerk_def)
  next
    case (Inr state)
    then show ?thesis
      using True mark set_cache_keeps_flag [OF m] by (simp add: syncWithClerk_def)
  qed
qed

lemma apply_op_keeps_flag:
  "hasAccount b = Inr True \<Longrightarrow> hasAccount (apply_op num op b) = Inr True"
  by (cases op)
     (simp_all add: apply_op_def get_keeps_flag set_cache_keeps_flag clear_keeps_flag
        syncWithClerk_keeps_flag markHasAccount_keeps_flag render_browser split: option.splits)

lemma run_ops_keeps_flag:
  "hasAccount b = Inr True \<Longrightarrow> hasAccount (run_ops num ops b) = Inr True"
  by (induction ops arbitrary: b) (simp_all add: apply_op_keeps_flag)

lemma run_ops_append: "run_ops num (pre @ post) b = run_ops num post (run_ops num pre b)"
  by (induction pre arbitrary: b) simp_all

text \<open>
  Claim C3. In every sequence of cache operations (\<open>get\<close>, \<open>set\<close>, \<open>clear\<close>,
  \<open>syncWithClerk\<close>, \<open>markHasAccount\<close>, \<open>renderOptimisticUI\<close>) from any storage state,
  once \<open>hasAccount\<close> returns true after some prefix, it returns true after every longer
  prefix. Nothing but these operations touches the storage in between.
\<close>

theorem hasAccount_monotonic:
  "hasAccount (run_ops num pre b) = Inr True \<Longrightarrow>
     hasAccount (run_ops num (pre @ post) b) = Inr True"
  by (simp add: run_ops_append run_ops_keeps_flag)

theorem hasAccount_monotonic_witness:
  "hasAccount (run_ops (\<lambda>s. None) [] empty_browser) = Inr False \<and>
   hasAccount (run_ops (\<lambda>s. None) [OpSync 1000 (JObj [(''id'', JStr ''user_1'')])] empty_browser)
     = Inr True \<and>
   hasAccount (run_ops (\<lambda>s. None)
      ([OpSync 1000 (JObj [(''id'', JStr ''user_1'')])] @
       [OpSync 2000 JNull, OpClear, OpGet 3000, OpSet 4000 (JObj []), OpRender 5000 None])
      empty_browser) = Inr True"
proof -
  have before: "hasAccount (run_ops (\<lambda>s. None) [] empty_browser) = Inr False"
    by (simp add: hasAccount_eq empty_browser_def)
  have seen: "hasAccount (run_ops (\<lambda>s. None) [OpSync 1000 (JObj [(''id'', JStr ''user_1'')])]
                     empty_browser) = Inr True"
    using keys_distinct
    by (simp add: apply_op_def syncWithClerk_def markHasAccount_eq clerk_state_Obj set_cache_eq
                  set_data_clerk_state hasAccount_eq empty_browser_def)
  note later = hasAccount_monotonic
      [OF seen, where post = "[OpSync 2000 JNull, OpClear, OpGet 3000, OpSet 4000 (JObj []),
                               OpRender 5000 None]"]
  from before seen later show ?thesis
    by blast
qed

section \<open>Properties of browser detection\<close>

lemma isPopupBlocked_never_raises: "\<exists>r. isPopupBlocked w = Inr r"
  by (cases "isPopupBlocked_try w") (auto simp: isPopupBlocked_def)

lemma isPopupBlocked_swallows: "isPopupBlocked_try w = Inl e \<Longrightarrow> isPopupBlocked w = Inr False"
  by (simp add: isPopupBlocked_def)

lemma probe_false_when_open_defined:
  "open_is_undefined w = Inr False \<Longrightarrow> isPopupBlocked w = Inr False"
  by (simp add: isPopupBlocked_def isPopupBlocked_try_def split: sum.splits bool.splits)

lemma isInAppBrowser_eq: "isInAppBrowser w = Inr (restrictive w)"
  using isPopupBlocked_never_raises [of w]
  by (auto simp: isInAppBrowser_def restrictive_def Let_def split: sum.splits bool.splits)

lemma some_pattern_iff: "some_pattern ua ps \<longleftrightarrow> (\<exists>p \<in> set ps. str_includes ua p)"
  by (induction ps) auto

lemma first_pattern_None: "first_pattern ua ps = None \<longleftrightarrow> \<not> some_pattern ua ps"
  by (induction ps) auto

lemma first_pattern_Some:
  "first_pattern ua ps = Some p \<Longrightarrow> p \<in> set ps \<and> str_includes ua p"
  by (induction ps) (auto split: if_splits)

lemma str_includes_infix: "str_includes (pre @ pattern @ post) pattern"
  by (auto simp: str_includes_def sublist_def)

lemma patterns_nonempty: "p \<in> set inAppBrowserPatterns \<Longrightarrow> p \<noteq> []"
  by (auto simp: inAppBrowserPatterns_def)

lemma user_agent_eq: "userAgent w \<noteq> [] \<Longrightarrow> user_agent w = userAgent w"
  by (simp add: user_agent_def)

lemma desktop_plain: "\<not> some_pattern (userAgent desktop_window) inAppBrowserPatterns"
  by code_simp

lemma getInAppBrowserName_None:
  "getInAppBrowserName w = None \<longleftrightarrow>
     \<not> some_pattern (user_agent w) inAppBrowserPatterns \<and> \<not> android_webview (user_agent w)
       \<and> \<not> ios_webview (user_agent w)"
proof (cases "first_pattern (user_agent w) inAppBrowserPatterns")
  case None
  then show ?thesis
    using first_pattern_None [of "user_agent w" inAppBrowserPatterns]
    by (simp add: getInAppBrowserName_def Let_def)
next
  case (Some p)
  then show ?thesis
    using first_pattern_None [of "user_agent w" inAppBrowserPatterns]
    by (simp add: getInAppBrowserName_def)
qed

lemma getInAppBrowserName_pattern:
  assumes "some_pattern (user_agent w) inAppBrowserPatterns"
  shows "\<exists>p. getInAppBrowserName w = Some p \<and> p \<in> set inAppBrowserPatterns
               \<and> str_includes (user_agent w) p"
proof -
  obtain p where p: "first_pattern (user_agent w) inAppBrowserPatterns = Some p"
    using assms first_pattern_None [of "user_agent w" inAppBrowserPatterns] by auto
  then have "getInAppBrowserName w = Some p"
    by (simp add: getInAppBrowserName_def)
  with first_pattern_Some [OF p] show ?thesis
    by simp
qed

text \<open>
  Claim C9. The pop-up probe never raises: whatever its reads do, \<open>_isPopupBlocked\<close>
  returns a boolean, and when a read inside its \<open>try\<close> block throws it returns false, so
  that \<open>isInAppBrowser\<close> is then decided by the signature and platform checks alone.
\<close>

theorem popup_probe_never_raises:
  "(\<exists>r. isPopupBlocked w = Inr r) \<and>
   (isPopupBlocked_try w = Inl e \<longrightarrow>
      isPopupBlocked w = Inr False \<and>
      isInAppBrowser w =
        Inr (some_pattern (user_agent w) inAppBrowserPatterns \<or> android_webview (user_agent w)
             \<or> ios_webview (user_agent w)))"
  using isPopupBlocked_never_raises [of w]
  by (auto simp: isPopupBlocked_swallows isInAppBrowser_eq restrictive_def)

theorem popup_probe_never_raises_witness:
  "isPopupBlocked_try (desktop_window\<lparr>opener_is_null := Inl SecurityError\<rparr>) = Inl SecurityError \<and>
   isPopupBlocked (desktop_window\<lparr>opener_is_null := Inl SecurityError\<rparr>) = Inr False \<and>
   isInAppBrowser (desktop_window\<lparr>opener_is_null := Inl SecurityError\<rparr>) = Inr False"
proof -
  let ?w = "desktop_window\<lparr>opener_is_null := Inl SecurityError\<rparr>"
  have thrown: "isPopupBlocked_try ?w = Inl SecurityError"
    by (simp add: isPopupBlocked_try_def js_and_def)
  have ua: "user_agent ?w = userAgent desktop_window"
    by (simp add: user_agent_def desktop_window_def)
  have plain: "\<not> android_webview (userAgent desktop_window)"
              "\<not> ios_webview (userAgent desktop_window)"
    by code_simp+
  show ?thesis
    using popup_probe_never_raises [of ?w SecurityError] thrown desktop_plain plain
    by (simp add: ua)
qed

text \<open>
  Claim C8. When the user-agent string contains a catalogued signature,
  \<open>isInAppBrowser\<close> returns true and \<open>getInAppBrowserName\<close> returns a catalogued
  signature that the string contains (the first one in catalogue order; the signature
  itself when the string contains no other). It returns true when the string contains
  \<open>Android\<close> and \<open>wv\<close>, and when it contains \<open>iPhone\<close>, \<open>iPad\<close> or \<open>iPod\<close>, and
  \<open>AppleWebKit\<close>, but not \<open>Safari\<close>. For a non-empty string with none of these, in a
  window that has \<open>window.open\<close>, it returns false and the lookup finds nothing.
\<close>

theorem detector_classifies_user_agents:
  "(pattern \<in> set inAppBrowserPatterns \<and> userAgent w = pre @ pattern @ post \<longrightarrow>
      isInAppBrowser w = Inr True \<and>
      (\<exists>p. getInAppBrowserName w = Some p \<and> p \<in> set inAppBrowserPatterns
            \<and> str_includes (userAgent w) p) \<and>
      ((\<forall>q \<in> set inAppBrowserPatterns. str_includes (userAgent w) q \<longrightarrow> q = pattern) \<longrightarrow>
         getInAppBrowserName w = Some pattern)) \<and>
   (str_includes (userAgent w) ''Android'' \<and> str_includes (userAgent w) ''wv'' \<longrightarrow>
      isInAppBrowser w = Inr True) \<and>
   ((str_includes (userAgent w) ''iPhone'' \<or> str_includes (userAgent w) ''iPad''
       \<or> str_includes (userAgent w) ''iPod'')
      \<and> str_includes (userAgent w) ''AppleWebKit'' \<and> \<not> str_includes (userAgent w) ''Safari'' \<longrightarrow>
      isInAppBrowser w = Inr True) \<and>
   (userAgent w \<noteq> [] \<and> (\<forall>q \<in> set inAppBrowserPatterns. \<not> str_includes (userAgent w) q)
      \<and> \<not> android_webview (userAgent w) \<and> \<not> ios_webview (userAgent w)
      \<and> open_is_undefined w = Inr False \<longrightarrow>
      isInAppBrowser w = Inr False \<and> getInAppBrowserName w = None)"
proof (intro conjI impI)
  assume a: "pattern \<in> set inAppBrowserPatterns \<and> userAgent w = pre @ pattern @ post"
  then have ne: "userAgent w \<noteq> []"
    using patterns_nonempty [of pattern] by auto
  have inc: "str_includes (userAgent w) pattern"
    using a str_includes_infix [of pre pattern post] by simp
  then have some: "some_pattern (user_agent w) inAppBrowserPatterns"
    using a by (auto simp: some_pattern_iff user_agent_eq [OF ne])
  then show "isInAppBrowser w = Inr True"
    by (simp add: isInAppBrowser_eq restrictive_def)
  from getInAppBrowserName_pattern [OF some]
  obtain p where p: "getInAppBrowserName w = Some p" "p \<in> set inAppBrowserPatterns"
      "str_includes (userAgent w) p"
    by (auto simp: user_agent_eq [OF ne])
  then show "\<exists>p. getInAppBrowserName w = Some p \<and> p \<in> set inAppBrowserPatterns
                 \<and> str_includes (userAgent w) p"
    by blast
  assume "\<forall>q \<in> set inAppBrowserPatterns. str_includes (userAgent w) q \<longrightarrow> q = pattern"
  with p show "getInAppBrowserName w = Some pattern"
    by auto
next
  assume a: "str_includes (userAgent w) ''Android'' \<and> str_includes (userAgent w) ''wv''"
  then have "userAgent w \<noteq> []"
    by (auto simp: str_includes_def)
  with a show "isInAppBrowser w = Inr True"
    by (simp add: isInAppBrowser_eq restrictive_def user_agent_eq android_webview_def)
next
  assume a: "(str_includes (userAgent w) ''iPhone'' \<or> str_includes (userAgent w) ''iPad''
       \<or> str_includes (userAgent w) ''iPod'')
      \<and> str_includes (userAgent w) ''AppleWebKit'' \<and> \<not> str_includes (userAgent w) ''Safari''"
  then have "userAgent w \<noteq> []"
    by (auto simp: str_includes_def)
  with a show "isInAppBrowser w = Inr True"
    by (simp add: isInAppBrowser_eq restrictive_def user_agent_eq ios_webview_def)
next
  assume a: "userAgent w \<noteq> [] \<and> (\<forall>q \<in> set inAppBrowserPatterns. \<not> str_includes (userAgent w) q)
      \<and> \<not> android_webview (userAgent w) \<and> \<not> ios_webview (userAgent w)
      \<and> open_is_undefined w = Inr False"
  then have ua: "user_agent w = userAgent w"
    by (simp add: user_agent_eq)
  have none: "\<not> some_pattern (user_agent w) inAppBrowserPatterns"
    using a by (simp add: some_pattern_iff ua)
  have probe: "isPopupBlocked w = Inr False"
    using a by (simp add: probe_false_when_open_defined)
  show "isInAppBrowser w = Inr False"
    using a none probe by (simp add: isInAppBrowser_eq restrictive_def ua)
  show "getInAppBrowserName w = None"
    using a none by (simp add: getInAppBrowserName_None ua)
qed

theorem detector_classifies_user_agents_witness:
  "isInAppBrowser facebook_window = Inr True \<and>
   getInAppBrowserName facebook_window = Some ''FBAN'' \<and>
   isInAppBrowser instagram_window = Inr True \<and>
   getInAppBrowserName instagram_window = Some ''Instagram'' \<and>
   isInAppBrowser android_webview_window = Inr True \<and>
   isInAppBrowser ios_webview_window = Inr True \<and>
   isInAppBrowser desktop_window = Inr False \<and>
   getInAppBrowserName desktop_window = None"
proof -
  have fb: "''FBAN'' \<in> set inAppBrowserPatterns \<and>
      userAgent facebook_window =
        ''Mozilla/5.0 (iPhone; CPU iPhone OS 16_0 like Mac OS X) AppleWebKit/605.1.15 (KHTML, like Gecko) Mobile/15E148 [''
        @ ''FBAN'' @ ''/FBIOS;FBAV/400.0]''"
    by (simp add: inAppBrowserPatterns_def facebook_window_def)
  have fb_first: "first_pattern (userAgent facebook_window) inAppBrowserPatterns = Some ''FBAN''"
    by code_simp
  have fb_name: "getInAppBrowserName facebook_window = Some ''FBAN''"
    using fb_first by (simp add: getInAppBrowserName_def user_agent_def facebook_window_def)
  have ig: "''Instagram'' \<in> set inAppBrowserPatterns \<and>
      userAgent instagram_window =
        ''Mozilla/5.0 (Linux; Android 13) AppleWebKit/537.36 (KHTML, like Gecko) Chrome/120.0.0.0 Mobile Safari/537.36 ''
        @ ''Instagram'' @ '' 300.0.0''"
    by (simp add: inAppBrowserPatterns_def instagram_window_def)
  have ig_only: "\<forall>q \<in> set inAppBrowserPatterns.
                   str_includes (userAgent instagram_window) q \<longrightarrow> q = ''Instagram''"
    by code_simp
  have android: "str_includes (userAgent android_webview_window) ''Android'' \<and>
                 str_includes (userAgent android_webview_window) ''wv''"
    by code_simp
  have ios: "(str_includes (userAgent ios_webview_window) ''iPhone''
                \<or> str_includes (userAgent ios_webview_window) ''iPad''
                \<or> str_includes (userAgent ios_webview_window) ''iPod'')
             \<and> str_includes (userAgent ios_webview_window) ''AppleWebKit''
             \<and> \<not> str_includes (userAgent ios_webview_window) ''Safari''"
    by code_simp
  have desktop: "userAgent desktop_window \<noteq> [] \<and>
      (\<forall>q \<in> set inAppBrowserPatterns. \<not> str_includes (userAgent desktop_window) q)
      \<and> \<not> android_webview (userAgent desktop_window) \<and> \<not> ios_webview (userAgent desktop_window)
      \<and> open_is_undefined desktop_window = Inr False"
    by code_simp
  note fb_thm = detector_classifies_user_agents
      [where w = facebook_window and pattern = "''FBAN''"
         and pre = "''Mozilla/5.0 (iPhone; CPU iPhone OS 16_0 like Mac OS X) AppleWebKit/605.1.15 (KHTML, like Gecko) Mobile/15E148 [''"
         and post = "''/FBIOS;FBAV/400.0]''"]
  note ig_thm = detector_classifies_user_agents
      [where w = instagram_window and pattern = "''Instagram''"
         and pre = "''Mozilla/5.0 (Linux; Android 13) AppleWebKit/537.36 (KHTML, like Gecko) Chrome/120.0.0.0 Mobile Safari/537.36 ''"
         and post = "'' 300.0.0''"]
  have 1: "isInAppBrowser facebook_window = Inr True"
    using fb_thm fb by blast
  have 2: "isInAppBrowser instagram_window = Inr True"
    using ig_thm ig by blast
  have 3: "getInAppBrowserName instagram_window = Some ''Instagram''"
    using ig_thm ig ig_only by blast
  have 4: "isInAppBrowser android_webview_window = Inr True"
    using detector_classifies_user_agents [where w = android_webview_window] android by blast
  have 5: "isInAppBrowser ios_webview_window = Inr True"
    using detector_classifies_user_agents [where w = ios_webview_window] ios by blast
  have 6: "isInAppBrowser desktop_window = Inr False \<and> getInAppBrowserName desktop_window = None"
    using detector_classifies_user_agents [where w = desktop_window] desktop by blast
  from 1 fb_name 2 3 4 5 6 show ?thesis
    by blast
qed

section \<open>Properties of the flow router\<close>

lemma navigate_changes: "navigate w url \<noteq> w"
proof
  assume "navigate w url = w"
  then have "navigations (navigate w url) = navigations w"
    by simp
  then show False
    by (simp add: navigate_def)
qed

lemma call_sdk_changes: "call_sdk w c \<noteq> w"
proof
  assume "call_sdk w c = w"
  then have "sdk_calls (call_sdk w c) = sdk_calls w"
    by simp
  then show False
    by (simp add: call_sdk_def)
qed

text \<open>
  Claim C7. In every window and for every return destination, \<open>openSignIn\<close> requests a
  navigation to \<open>/sign-in?redirect_url=\<close> followed by the URL-encoded destination when
  \<open>isInAppBrowser\<close> answers true, whether or not the SDK is loaded, and when the SDK or
  its \<open>openSignIn\<close> entry point is missing; otherwise it calls the SDK's \<open>openSignIn\<close>
  and requests no navigation. \<open>openSignUp\<close> does the same with \<open>/sign-up\<close> and the
  SDK's \<open>openSignUp\<close>. Neither raises, and each leaves the window changed: it navigates
  or it calls the SDK.
\<close>

theorem flow_router_redirects_or_invokes:
  "openSignIn w redirectUrl =
     (Inr (),
      if isInAppBrowser w = Inr True \<or> \<not> clerk_has w OpenSignIn
      then w\<lparr>navigations := navigations w @
                [''/sign-in?redirect_url='' @ encodeURIComponent (return_url w redirectUrl)]\<rparr>
      else w\<lparr>sdk_calls := sdk_calls w @ [OpenSignIn]\<rparr>) \<and>
   openSignUp w redirectUrl =
     (Inr (),
      if isInAppBrowser w = Inr True \<or> \<not> clerk_has w OpenSignUp
      then w\<lparr>navigations := navigations w @
                [''/sign-up?redirect_url='' @ encodeURIComponent (return_url w redirectUrl)]\<rparr>
      else w\<lparr>sdk_calls := sdk_calls w @ [OpenSignUp]\<rparr>) \<and>
   snd (openSignIn w redirectUrl) \<noteq> w \<and> snd (openSignUp w redirectUrl) \<noteq> w"
proof -
  have signIn: "openSignIn w redirectUrl =
     (Inr (),
      if isInAppBrowser w = Inr True \<or> \<not> clerk_has w OpenSignIn
      then navigate w (''/sign-in?redirect_url='' @ encodeURIComponent (return_url w redirectUrl))
      else call_sdk w OpenSignIn)"
    by (cases "restrictive w") (simp_all add: openSignIn_def isInAppBrowser_eq Let_def)
  have signUp: "openSignUp w redirectUrl =
     (Inr (),
      if isInAppBrowser w = Inr True \<or> \<not> clerk_has w OpenSignUp
      then navigate w (''/sign-up?redirect_url='' @ encodeURIComponent (return_url w redirectUrl))
      else call_sdk w OpenSignUp)"
    by (cases "restrictive w") (simp_all add: openSignUp_def isInAppBrowser_eq Let_def)
  have "snd (openSignIn w redirectUrl) \<noteq> w" "snd (openSignUp w redirectUrl) \<noteq> w"
    using navigate_changes call_sdk_changes by (simp_all add: signIn signUp)
  then show ?thesis
    by (simp add: signIn signUp navigate_def call_sdk_def)
qed

theorem flow_router_redirects_or_invokes_witness:
  "openSignIn facebook_window None =
     (Inr (),
      facebook_window\<lparr>navigations :=
        [''/sign-in?redirect_url=https%3A%2F%2Fguruji.example%2Fcourses%3Fid%3D7'']\<rparr>) \<and>
   openSignIn desktop_window None = (Inr (), desktop_window\<lparr>sdk_calls := [OpenSignIn]\<rparr>) \<and>
   openSignUp (desktop_window\<lparr>Clerk := None\<rparr>) (Some ''/dashboard'') =
     (Inr (),
      desktop_window\<lparr>Clerk := None, navigations := [''/sign-up?redirect_url=%2Fdashboard'']\<rparr>)"
proof -
  have fb: "isInAppBrowser facebook_window = Inr True"
    by code_simp
  have plain: "isInAppBrowser desktop_window = Inr False"
       "isInAppBrowser (desktop_window\<lparr>Clerk := None\<rparr>) = Inr False"
    by code_simp+
  have enc: "encodeURIComponent (return_url facebook_window None) =
               ''https%3A%2F%2Fguruji.example%2Fcourses%3Fid%3D7''"
       "encodeURIComponent (return_url (desktop_window\<lparr>Clerk := None\<rparr>) (Some ''/dashboard'')) =
               ''%2Fdashboard''"
    by code_simp+
  have sdk: "clerk_has desktop_window OpenSignIn"
       "\<not> clerk_has (desktop_window\<lparr>Clerk := None\<rparr>) OpenSignUp"
    by (simp_all add: clerk_has_def desktop_window_def)
  have logs: "navigations facebook_window = []" "sdk_calls desktop_window = []"
       "navigations (desktop_window\<lparr>Clerk := None\<rparr>) = []"
    by (simp_all add: facebook_window_def desktop_window_def)
  have 1: "openSignIn facebook_window None =
     (Inr (),
      facebook_window\<lparr>navigations :=
        [''/sign-in?redirect_url=https%3A%2F%2Fguruji.example%2Fcourses%3Fid%3D7'']\<rparr>)"
    using flow_router_redirects_or_invokes [of facebook_window None] fb
    by (simp add: enc logs)
  have 2: "openSignIn desktop_window None = (Inr (), desktop_window\<lparr>sdk_calls := [OpenSignIn]\<rparr>)"
    using flow_router_redirects_or_invokes [of desktop_window None] plain(1) sdk(1)
    by (simp add: logs)
  have 3: "openSignUp (desktop_window\<lparr>Clerk := None\<rparr>) (Some ''/dashboard'') =
     (Inr (),
      desktop_window\<lparr>Clerk := None, navigations := [''/sign-up?redirect_url=%2Fdashboard'']\<rparr>)"
    using flow_router_redirects_or_invokes
            [of "desktop_window\<lparr>Clerk := None\<rparr>" "Some ''/dashboard''"] sdk(2)
    by (simp add: enc logs)
  from 1 2 3 show ?thesis
    by blast
qed

end
